theory Spec2Isabelle
  imports Main
begin

section \<open>Errors\<close>

text \<open>
  The exceptions the three modules raise. \<open>ValidationError\<close> is what constructing
  \<open>Settings\<close> raises (one entry per rejected input); \<open>KeyError\<close> and \<open>TypeError\<close> are
  what subscripting a Python value raises; \<open>RedisError\<close> and \<open>MilvusException\<close> carry
  their message. Where the source formats a Python set or a number into the message,
  the model keeps the fixed part of the text only.
\<close>

datatype field_error = Missing string | IntParsing string | ExtraForbidden string

datatype error =
    ValidationError "field_error list"
  | KeyError string
  | TypeError string
  | RedisError string
  | MilvusException string

section \<open>Configuration: semantic\_cache/core/settings.py\<close>

record Settings =
  REDIS_HOST :: string
  REDIS_PORT :: int
  REDIS_INDEX_NAME :: string
  MILVUS_HOST :: string
  MILVUS_PORT :: int
  MILVUS_COLLECTION_NAME :: string
  VECTOR_DIM :: int

text \<open>
  \<open>Settings()\<close> is called without arguments, so every field is read by its exact name
  (\<open>case_sensitive = True\<close>) from the process environment and, where the environment
  has no such variable, from the \<open>.env\<close> file (\<open>env_file = ".env"\<close>). The environment
  is a map from names to strings; the file is the list of its entries in order, a later
  entry of a name replacing an earlier one. No field declares a default.
\<close>

type_synonym environment = "string \<rightharpoonup> string"

type_synonym dotenv = "(string \<times> string) list"

definition dotenv_value :: "dotenv \<Rightarrow> environment" where
  "dotenv_value d = map_of (rev d)"

definition setting_value :: "environment \<Rightarrow> dotenv \<Rightarrow> environment" where
  "setting_value env d k = (case env k of Some v \<Rightarrow> Some v | None \<Rightarrow> dotenv_value d k)"

text \<open>
  A \<open>str\<close> field takes the string as it is; an \<open>int\<close> field is converted by the settings
  library, whose conversion is the parameter \<open>parse\<close>.
\<close>

definition validate_str :: "environment \<Rightarrow> string \<Rightarrow> field_error + string" where
  "validate_str env k = (case env k of None \<Rightarrow> Inl (Missing k) | Some v \<Rightarrow> Inr v)"

definition validate_int ::
  "(string \<Rightarrow> int option) \<Rightarrow> environment \<Rightarrow> string \<Rightarrow> field_error + int" where
  "validate_int parse env k =
     (case env k of
        None \<Rightarrow> Inl (Missing k)
      | Some v \<Rightarrow> (case parse v of None \<Rightarrow> Inl (IntParsing k) | Some i \<Rightarrow> Inr i))"

fun errors_of :: "field_error + 'a \<Rightarrow> field_error list" where
  "errors_of (Inl e) = [e]"
| "errors_of (Inr _) = []"

text \<open>
  The settings library forbids inputs that are no field of the class. Variables of the
  process environment under other names are not inputs; an entry of the \<open>.env\<close> file
  under another name, with a value that is not empty, is one, and is an error.
\<close>

definition setting_names :: "string list" where
  "setting_names =
     [''REDIS_HOST'', ''REDIS_PORT'', ''REDIS_INDEX_NAME'', ''MILVUS_HOST'', ''MILVUS_PORT'',
      ''MILVUS_COLLECTION_NAME'', ''VECTOR_DIM'']"

definition extra_inputs :: "dotenv \<Rightarrow> string list" where
  "extra_inputs d =
     filter (\<lambda>k. k \<notin> set setting_names \<and> dotenv_value d k \<noteq> Some [])
       (remdups (map fst d))"

text \<open>All fields are validated and all failures are reported together.\<close>

definition Settings_init ::
  "(string \<Rightarrow> int option) \<Rightarrow> environment \<Rightarrow> dotenv \<Rightarrow> error + Settings" where
  "Settings_init parse env d =
     (let src = setting_value env d;
          rh = validate_str src ''REDIS_HOST'';
          rp = validate_int parse src ''REDIS_PORT'';
          ri = validate_str src ''REDIS_INDEX_NAME'';
          mh = validate_str src ''MILVUS_HOST'';
          mp = validate_int parse src ''MILVUS_PORT'';
          mc = validate_str src ''MILVUS_COLLECTION_NAME'';
          vd = validate_int parse src ''VECTOR_DIM'';
          failed = ValidationError
            (errors_of rh @ errors_of rp @ errors_of ri @ errors_of mh @
             errors_of mp @ errors_of mc @ errors_of vd @
             map ExtraForbidden (extra_inputs d))
      in (case rh of Inl _ \<Rightarrow> Inl failed | Inr a \<Rightarrow>
         (case rp of Inl _ \<Rightarrow> Inl failed | Inr b \<Rightarrow>
         (case ri of Inl _ \<Rightarrow> Inl failed | Inr c \<Rightarrow>
         (case mh of Inl _ \<Rightarrow> Inl failed | Inr d' \<Rightarrow>
         (case mp of Inl _ \<Rightarrow> Inl failed | Inr e \<Rightarrow>
         (case mc of Inl _ \<Rightarrow> Inl failed | Inr f \<Rightarrow>
         (case vd of Inl _ \<Rightarrow> Inl failed | Inr g \<Rightarrow>
            (if extra_inputs d \<noteq> [] then Inl failed
             else Inr \<lparr>REDIS_HOST = a, REDIS_PORT = b, REDIS_INDEX_NAME = c,
                       MILVUS_HOST = d', MILVUS_PORT = e, MILVUS_COLLECTION_NAME = f,
                       VECTOR_DIM = g\<rparr>)))))))))"

text \<open>The seven names, each bound to some string.\<close>

definition all_supplied :: "environment \<Rightarrow> bool" where
  "all_supplied env \<longleftrightarrow>
     env ''REDIS_HOST'' \<noteq> None \<and> env ''REDIS_PORT'' \<noteq> None \<and>
     env ''REDIS_INDEX_NAME'' \<noteq> None \<and> env ''MILVUS_HOST'' \<noteq> None \<and>
     env ''MILVUS_PORT'' \<noteq> None \<and> env ''MILVUS_COLLECTION_NAME'' \<noteq> None \<and>
     env ''VECTOR_DIM'' \<noteq> None"

text \<open>The three \<open>int\<close> fields, each bound to a string the conversion accepts.\<close>

definition ints_valid :: "(string \<Rightarrow> int option) \<Rightarrow> environment \<Rightarrow> bool" where
  "ints_valid parse env \<longleftrightarrow>
     Option.bind (env ''REDIS_PORT'') parse \<noteq> None \<and>
     Option.bind (env ''MILVUS_PORT'') parse \<noteq> None \<and>
     Option.bind (env ''VECTOR_DIM'') parse \<noteq> None"

text \<open>
  The conversion for concrete runs, on decimal notation as the library's validator
  reads it: blanks around the text are dropped; a sign and digits are a number; failing
  that, a fraction of zeros only is dropped; failing that, single underscores between
  digits are dropped. Everything else is rejected.
\<close>

definition is_space :: "char \<Rightarrow> bool" where
  "is_space c \<longleftrightarrow> c \<in> set [CHR '' '', CHR 0x09, CHR 0x0A, CHR 0x0B, CHR 0x0C, CHR 0x0D]"

definition trim :: "string \<Rightarrow> string" where
  "trim s = rev (dropWhile is_space (rev (dropWhile is_space s)))"

fun digit_value :: "char \<Rightarrow> nat option" where
  "digit_value c =
     (let n = (of_char c :: nat) in if 48 \<le> n \<and> n \<le> 57 then Some (n - 48) else None)"

fun digits_value :: "nat \<Rightarrow> string \<Rightarrow> nat option" where
  "digits_value acc [] = Some acc"
| "digits_value acc (c # cs) =
     (case digit_value c of None \<Rightarrow> None | Some d \<Rightarrow> digits_value (10 * acc + d) cs)"

fun parse_plain :: "string \<Rightarrow> int option" where
  "parse_plain [] = None"
| "parse_plain (c # cs) =
     (if c = CHR ''-'' then
        (if cs = [] then None else map_option (\<lambda>n. - int n) (digits_value 0 cs))
      else if c = CHR ''+'' then
        (if cs = [] then None else map_option int (digits_value 0 cs))
      else map_option int (digits_value 0 (c # cs)))"

definition strip_decimal_zeros :: "string \<Rightarrow> string option" where
  "strip_decimal_zeros s =
     (if CHR ''.'' \<in> set s \<and>
         list_all (\<lambda>c. c = CHR ''0'') (drop 1 (dropWhile (\<lambda>c. c \<noteq> CHR ''.'') s))
      then Some (takeWhile (\<lambda>c. c \<noteq> CHR ''.'') s) else None)"

fun double_underscore :: "string \<Rightarrow> bool" where
  "double_underscore (a # b # cs) =
     ((a = CHR ''_'' \<and> b = CHR ''_'') \<or> double_underscore (b # cs))"
| "double_underscore _ = False"

definition strip_underscores :: "string \<Rightarrow> string option" where
  "strip_underscores s =
     (if CHR ''_'' \<notin> set s \<or> take 1 s = ''_'' \<or> take 1 (rev s) = ''_'' \<or> double_underscore s
      then None else Some (filter (\<lambda>c. c \<noteq> CHR ''_'') s))"

definition parse_decimal :: "string \<Rightarrow> int option" where
  "parse_decimal s =
     (let t = trim s in
      case parse_plain t of
        Some i \<Rightarrow> Some i
      | None \<Rightarrow>
          (case strip_decimal_zeros t of
             Some u \<Rightarrow> parse_plain u
           | None \<Rightarrow>
               (case strip_underscores t of
                  Some u \<Rightarrow> parse_plain u
                | None \<Rightarrow> None)))"

section \<open>The Redis server as the client sees it\<close>

text \<open>
  Python values: those of the dictionaries passed to the two client libraries, and those
  of a reply of the Redis client.
\<close>

datatype pyval =
    PyStr string
  | PyBytes string
  | PyInt int
  | PyDict "(string \<times> pyval) list"
  | PyList "pyval list"

text \<open>\<open>value[key]\<close> with a \<open>str\<close> key: only a dictionary can be subscripted so.\<close>

fun getitem :: "pyval \<Rightarrow> string \<Rightarrow> error + pyval" where
  "getitem (PyDict kvs) k = (case map_of kvs k of None \<Rightarrow> Inl (KeyError k) | Some v \<Rightarrow> Inr v)"
| "getitem (PyList _) k = Inl (TypeError ''list indices must be integers or slices, not str'')"
| "getitem (PyStr _) k = Inl (TypeError ''string indices must be integers, not str'')"
| "getitem (PyBytes _) k = Inl (TypeError ''byte indices must be integers or slices, not str'')"
| "getitem (PyInt _) k = Inl (TypeError ''int object is not subscriptable'')"

datatype redis_field =
    TagField string
  | VectorField string string "(string \<times> pyval) list"
  | NumericField string

fun field_name :: "redis_field \<Rightarrow> string" where
  "field_name (TagField n) = n"
| "field_name (VectorField n _ _) = n"
| "field_name (NumericField n) = n"

fun field_type :: "redis_field \<Rightarrow> string" where
  "field_type (TagField _) = ''TAG''"
| "field_type (VectorField _ _ _) = ''VECTOR''"
| "field_type (NumericField _) = ''NUMERIC''"

datatype IndexType = HASH | JSON

record IndexDefinition =
  prefix :: "string list"
  index_type :: IndexType

record redis_index =
  index_fields :: "redis_field list"
  index_definition :: IndexDefinition
  index_stopwords :: "string list"

datatype redis_command =
    PING
  | FT_INFO string
  | FT_CREATE string "redis_field list" IndexDefinition "string list"

text \<open>
  The server: the search indexes it holds by name, the commands it has been sent (oldest
  first), and \<open>redis_failure\<close>, the transport or server-side failure a command meets, if
  any (an unreachable host fails \<open>PING\<close>; a server can reject a creation request).
  Every such failure reaches the caller as a \<open>RedisError\<close>.
\<close>

record redis_server =
  redis_failure :: "redis_command \<Rightarrow> string option"
  indexes :: "string \<rightharpoonup> redis_index"
  commands :: "redis_command list"

definition redis_sent :: "redis_command \<Rightarrow> redis_server \<Rightarrow> redis_server" where
  "redis_sent c s = s\<lparr>commands := commands s @ [c]\<rparr>"

text \<open>\<open>redis.ping()\<close>\<close>

definition ping :: "redis_server \<Rightarrow> (error + unit) \<times> redis_server" where
  "ping s =
     (case redis_failure s PING of
        Some m \<Rightarrow> (Inl (RedisError m), redis_sent PING s)
      | None \<Rightarrow> (Inr (), redis_sent PING s))"

text \<open>
  \<open>redis.ft(name).info()\<close>, reduced to the entry the caller reads, \<open>info["attributes"]\<close>.
  The client is built with the default protocol and \<open>decode_responses=False\<close>: the reply
  is the server's flat list, of which the client turns the top level into a dictionary
  and leaves the rest as it is. So the entry is a list with one element for each
  attribute of the index, and each element is itself a flat list of byte strings, names
  and values in turn (the first three pairs are kept here). The server answers an unknown
  index name with an error.
\<close>

definition attribute_reply :: "redis_field \<Rightarrow> pyval" where
  "attribute_reply f =
     PyList [PyBytes ''identifier'', PyBytes (field_name f),
             PyBytes ''attribute'', PyBytes (field_name f),
             PyBytes ''type'', PyBytes (field_type f)]"

definition ft_info :: "string \<Rightarrow> redis_server \<Rightarrow> (error + pyval list) \<times> redis_server" where
  "ft_info n s =
     (case redis_failure s (FT_INFO n) of
        Some m \<Rightarrow> (Inl (RedisError m), redis_sent (FT_INFO n) s)
      | None \<Rightarrow>
          (case indexes s n of
             None \<Rightarrow> (Inl (RedisError ''Unknown index name''), redis_sent (FT_INFO n) s)
           | Some idx \<Rightarrow>
               (Inr (map attribute_reply (index_fields idx)), redis_sent (FT_INFO n) s)))"

text \<open>
  \<open>redis.ft(name).create_index(schema, definition=..., stopwords=...)\<close>. The server
  refuses to create an index under a name it already holds.
\<close>

definition create_index ::
  "string \<Rightarrow> redis_field list \<Rightarrow> IndexDefinition \<Rightarrow> string list \<Rightarrow> redis_server
     \<Rightarrow> (error + unit) \<times> redis_server" where
  "create_index n schema defn stopwords s =
     (case redis_failure s (FT_CREATE n schema defn stopwords) of
        Some m \<Rightarrow> (Inl (RedisError m), redis_sent (FT_CREATE n schema defn stopwords) s)
      | None \<Rightarrow>
          (case indexes s n of
             Some _ \<Rightarrow>
               (Inl (RedisError ''Index already exists''),
                redis_sent (FT_CREATE n schema defn stopwords) s)
           | None \<Rightarrow>
               (Inr (),
                redis_sent (FT_CREATE n schema defn stopwords)
                  (s\<lparr>indexes := (indexes s)
                       (n \<mapsto> \<lparr>index_fields = schema, index_definition = defn,
                              index_stopwords = stopwords\<rparr>)\<rparr>))))"

section \<open>init\_redis\_schema\<close>

definition required_fields :: "pyval set" where
  "required_fields =
     {PyStr ''course_id'', PyStr ''vector'', PyStr ''access_count'', PyStr ''last_accessed''}"

text \<open>
  \<open>{attr["attribute"] for attr in info["attributes"]}\<close>: the elements are subscripted in
  order, and the first subscript that raises ends the comprehension.
\<close>

fun attribute_values :: "pyval list \<Rightarrow> error + pyval list" where
  "attribute_values [] = Inr []"
| "attribute_values (attr # attrs) =
     (case getitem attr ''attribute'' of
        Inl e \<Rightarrow> Inl e
      | Inr v \<Rightarrow> (case attribute_values attrs of Inl e \<Rightarrow> Inl e | Inr vs \<Rightarrow> Inr (v # vs)))"

text \<open>The body of the second \<open>try\<close> (lines 39 to 51): read the index, check its attributes.\<close>

definition redis_check_existing :: "Settings \<Rightarrow> redis_server \<Rightarrow> (error + unit) \<times> redis_server" where
  "redis_check_existing st s =
     (case ft_info (REDIS_INDEX_NAME st) s of
        (Inl e, s1) \<Rightarrow> (Inl e, s1)
      | (Inr info, s1) \<Rightarrow>
          (case attribute_values info of
             Inl e \<Rightarrow> (Inl e, s1)
           | Inr vs \<Rightarrow>
               (let attributes = set vs in
                if \<not> required_fields \<subseteq> attributes
                then (Inl (RedisError ''Redis index schema mismatch''), s1)
                else (Inr (), s1))))"

text \<open>The handler \<open>except RedisError\<close> (lines 54 to 86): build the schema, create the index.\<close>

definition redis_schema :: "Settings \<Rightarrow> redis_field list" where
  "redis_schema st =
     [TagField ''course_id'',
      VectorField ''vector'' ''HNSW''
        [(''TYPE'', PyStr ''FLOAT32''),
         (''DIM'', PyInt (VECTOR_DIM st)),
         (''DISTANCE_METRIC'', PyStr ''COSINE''),
         (''M'', PyInt 16),
         (''EF_CONSTRUCTION'', PyInt 200)],
      NumericField ''access_count'',
      NumericField ''last_accessed'']"

definition redis_definition :: IndexDefinition where
  "redis_definition = \<lparr>prefix = [''cache:''], index_type = HASH\<rparr>"

definition redis_create :: "Settings \<Rightarrow> redis_server \<Rightarrow> (error + unit) \<times> redis_server" where
  "redis_create st s =
     (case create_index (REDIS_INDEX_NAME st) (redis_schema st) redis_definition [] s of
        (Inl (RedisError m), s1) \<Rightarrow>
          (Inl (RedisError (''Failed to create Redis index: '' @ m)), s1)
      | (Inl e, s1) \<Rightarrow> (Inl e, s1)
      | (Inr u, s1) \<Rightarrow> (Inr u, s1))"

text \<open>
  The whole function. The first \<open>try\<close> builds the client and pings the server, and
  re-raises a \<open>RedisError\<close> as a connection failure. The second \<open>try\<close> has the handler
  \<open>except RedisError\<close>: every \<open>RedisError\<close> raised in its body, the server's or the
  body's own, continues in the handler; an exception of another class leaves the
  function. Calls of the logger change nothing here and are left out.
\<close>

definition init_redis_schema :: "Settings \<Rightarrow> redis_server \<Rightarrow> (error + unit) \<times> redis_server" where
  "init_redis_schema st s =
     (case ping s of
        (Inl (RedisError m), s0) \<Rightarrow> (Inl (RedisError (''Redis connection failed: '' @ m)), s0)
      | (Inl e, s0) \<Rightarrow> (Inl e, s0)
      | (Inr _, s0) \<Rightarrow>
          (case redis_check_existing st s0 of
             (Inl (RedisError _), s1) \<Rightarrow> redis_create st s1
           | (Inl e, s1) \<Rightarrow> (Inl e, s1)
           | (Inr u, s1) \<Rightarrow> (Inr u, s1)))"

section \<open>The Milvus server as the client sees it\<close>

datatype DataType = BOOL | INT8 | INT16 | INT32 | INT64 | FLOAT | DOUBLE | VARCHAR | FLOAT_VECTOR

text \<open>
  A field of a collection schema. The keyword arguments a \<open>FieldSchema\<close> call leaves out
  take the library's defaults (\<open>False\<close>, an empty description); \<open>dim\<close> and
  \<open>max_length\<close> are type parameters, absent (\<open>None\<close>) unless given.
\<close>

record FieldSchema =
  name :: string
  dtype :: DataType
  is_primary :: bool
  auto_id :: bool
  is_partition_key :: bool
  dim :: "int option"
  max_length :: "int option"
  description :: string

record CollectionSchema =
  schema_fields :: "FieldSchema list"
  schema_description :: string

record Collection =
  schema :: CollectionSchema
  consistency_level :: string
  vector_indexes :: "(string \<times> pyval) list"

datatype milvus_request =
    CONNECT string string int
  | HAS_COLLECTION string
  | DESCRIBE_COLLECTION string
  | CREATE_COLLECTION string CollectionSchema string
  | CREATE_INDEX string string pyval

text \<open>
  The server: its collections by name, the requests it has been sent (oldest first), and
  \<open>milvus_failure\<close>, the transport or server-side failure a request meets, if any. Every
  such failure reaches the caller as a \<open>MilvusException\<close>.
\<close>

record milvus_server =
  milvus_failure :: "milvus_request \<Rightarrow> string option"
  collections :: "string \<rightharpoonup> Collection"
  requests :: "milvus_request list"

definition milvus_sent :: "milvus_request \<Rightarrow> milvus_server \<Rightarrow> milvus_server" where
  "milvus_sent r s = s\<lparr>requests := requests s @ [r]\<rparr>"

text \<open>\<open>connections.connect(alias=..., host=..., port=...)\<close>\<close>

definition connect ::
  "string \<Rightarrow> string \<Rightarrow> int \<Rightarrow> milvus_server \<Rightarrow> (error + unit) \<times> milvus_server" where
  "connect alias host port s =
     (case milvus_failure s (CONNECT alias host port) of
        Some m \<Rightarrow> (Inl (MilvusException m), milvus_sent (CONNECT alias host port) s)
      | None \<Rightarrow> (Inr (), milvus_sent (CONNECT alias host port) s))"

text \<open>\<open>utility.has_collection(name)\<close>\<close>

definition has_collection :: "string \<Rightarrow> milvus_server \<Rightarrow> (error + bool) \<times> milvus_server" where
  "has_collection n s =
     (case milvus_failure s (HAS_COLLECTION n) of
        Some m \<Rightarrow> (Inl (MilvusException m), milvus_sent (HAS_COLLECTION n) s)
      | None \<Rightarrow> (Inr (collections s n \<noteq> None), milvus_sent (HAS_COLLECTION n) s))"

text \<open>\<open>Collection(name)\<close>: the handle of a collection that exists, with its schema.\<close>

definition Collection_open ::
  "string \<Rightarrow> milvus_server \<Rightarrow> (error + Collection) \<times> milvus_server" where
  "Collection_open n s =
     (case milvus_failure s (DESCRIBE_COLLECTION n) of
        Some m \<Rightarrow> (Inl (MilvusException m), milvus_sent (DESCRIBE_COLLECTION n) s)
      | None \<Rightarrow>
          (case collections s n of
             None \<Rightarrow>
               (Inl (MilvusException ''Collection not exist''),
                milvus_sent (DESCRIBE_COLLECTION n) s)
           | Some col \<Rightarrow> (Inr col, milvus_sent (DESCRIBE_COLLECTION n) s)))"

text \<open>
  \<open>Collection(name=..., schema=..., consistency_level=...)\<close>: creates the collection
  when the server holds none of that name; a collection that exists is returned as it
  is when its schema is the one passed in, and is an error otherwise.
\<close>

definition Collection_create ::
  "string \<Rightarrow> CollectionSchema \<Rightarrow> string \<Rightarrow> milvus_server \<Rightarrow> (error + unit) \<times> milvus_server" where
  "Collection_create n sch level s =
     (case milvus_failure s (CREATE_COLLECTION n sch level) of
        Some m \<Rightarrow> (Inl (MilvusException m), milvus_sent (CREATE_COLLECTION n sch level) s)
      | None \<Rightarrow>
          (case collections s n of
             Some col \<Rightarrow>
               (if schema col = sch
                then (Inr (), milvus_sent (DESCRIBE_COLLECTION n) s)
                else (Inl (MilvusException ''The collection already exist, but the schema is not the same''),
                      milvus_sent (DESCRIBE_COLLECTION n) s))
           | None \<Rightarrow>
               (Inr (),
                milvus_sent (CREATE_COLLECTION n sch level)
                  (s\<lparr>collections := (collections s)
                       (n \<mapsto> \<lparr>schema = sch, consistency_level = level,
                              vector_indexes = []\<rparr>)\<rparr>))))"

text \<open>\<open>col.create_index(field_name, index_params)\<close> on the collection named \<open>n\<close>.\<close>

definition Collection_create_index ::
  "string \<Rightarrow> string \<Rightarrow> pyval \<Rightarrow> milvus_server \<Rightarrow> (error + unit) \<times> milvus_server" where
  "Collection_create_index n f params s =
     (case milvus_failure s (CREATE_INDEX n f params) of
        Some m \<Rightarrow> (Inl (MilvusException m), milvus_sent (CREATE_INDEX n f params) s)
      | None \<Rightarrow>
          (case collections s n of
             None \<Rightarrow>
               (Inl (MilvusException ''Collection not exist''),
                milvus_sent (CREATE_INDEX n f params) s)
           | Some col \<Rightarrow>
               (Inr (),
                milvus_sent (CREATE_INDEX n f params)
                  (s\<lparr>collections := (collections s)
                       (n \<mapsto> col\<lparr>vector_indexes := vector_indexes col @ [(f, params)]\<rparr>)\<rparr>))))"

section \<open>init\_milvus\_schema\<close>

text \<open>
  \<open>{f.name: f for f in col.schema.fields}\<close>: a later field of the same name replaces an
  earlier one.
\<close>

definition fields_by_name :: "FieldSchema list \<Rightarrow> (string \<rightharpoonup> FieldSchema)" where
  "fields_by_name fs = map_of (rev (map (\<lambda>f. (name f, f)) fs))"

text \<open>The three checks on a collection that exists (lines 116 to 131), in their order.\<close>

definition milvus_check_existing :: "Settings \<Rightarrow> Collection \<Rightarrow> error + unit" where
  "milvus_check_existing st col =
     (let fs = fields_by_name (schema_fields (schema col)) in
      case fs ''course_id'' of
        None \<Rightarrow> Inl (MilvusException ''Milvus schema invalid: 'course_id' must be a partition key'')
      | Some c \<Rightarrow>
          if \<not> is_partition_key c
          then Inl (MilvusException ''Milvus schema invalid: 'course_id' must be a partition key'')
          else
            (case fs ''vector'' of
               None \<Rightarrow> Inl (MilvusException ''Milvus schema invalid: missing 'vector' field'')
             | Some v \<Rightarrow>
                 if dim v \<noteq> Some (VECTOR_DIM st)
                 then Inl (MilvusException ''Vector dimension mismatch'')
                 else Inr ()))"

text \<open>The schema of a new collection (lines 138 to 174) and the index over it.\<close>

definition FieldSchema_new :: "string \<Rightarrow> DataType \<Rightarrow> FieldSchema" where
  "FieldSchema_new n t =
     \<lparr>name = n, dtype = t, is_primary = False, auto_id = False, is_partition_key = False,
      dim = None, max_length = None, description = []\<rparr>"

definition milvus_schema :: "Settings \<Rightarrow> CollectionSchema" where
  "milvus_schema st =
     \<lparr>schema_fields =
        [(FieldSchema_new ''id'' INT64)\<lparr>is_primary := True, auto_id := True\<rparr>,
         (FieldSchema_new ''course_id'' INT64)\<lparr>is_partition_key := True\<rparr>,
         (FieldSchema_new ''vector'' FLOAT_VECTOR)\<lparr>dim := Some (VECTOR_DIM st)\<rparr>,
         (FieldSchema_new ''doc_ref_id'' VARCHAR)\<lparr>max_length := Some 128\<rparr>,
         FieldSchema_new ''chunk_index'' INT32,
         (FieldSchema_new ''created_at'' INT64)\<lparr>description := ''Unix timestamp''\<rparr>],
      schema_description = ''LMS secured semantic course content''\<rparr>"

definition index_params :: pyval where
  "index_params =
     PyDict [(''metric_type'', PyStr ''COSINE''),
             (''index_type'', PyStr ''HNSW''),
             (''params'', PyDict [(''M'', PyInt 16), (''efConstruction'', PyInt 200)])]"

text \<open>The last \<open>try\<close> (lines 176 to 196): create the collection, then its index.\<close>

definition milvus_create :: "Settings \<Rightarrow> milvus_server \<Rightarrow> (error + unit) \<times> milvus_server" where
  "milvus_create st s =
     (case Collection_create (MILVUS_COLLECTION_NAME st) (milvus_schema st) ''Strong'' s of
        (Inl (MilvusException m), s1) \<Rightarrow>
          (Inl (MilvusException (''Failed to create Milvus collection: '' @ m)), s1)
      | (Inl e, s1) \<Rightarrow> (Inl e, s1)
      | (Inr _, s1) \<Rightarrow>
          (case Collection_create_index (MILVUS_COLLECTION_NAME st) ''vector'' index_params s1 of
             (Inl (MilvusException m), s2) \<Rightarrow>
               (Inl (MilvusException (''Failed to create Milvus collection: '' @ m)), s2)
           | (Inl e, s2) \<Rightarrow> (Inl e, s2)
           | (Inr u, s2) \<Rightarrow> (Inr u, s2)))"

definition init_milvus_schema :: "Settings \<Rightarrow> milvus_server \<Rightarrow> (error + unit) \<times> milvus_server" where
  "init_milvus_schema st s =
     (case connect ''default'' (MILVUS_HOST st) (MILVUS_PORT st) s of
        (Inl (MilvusException m), s0) \<Rightarrow>
          (Inl (MilvusException (''Milvus connection failed: '' @ m)), s0)
      | (Inl e, s0) \<Rightarrow> (Inl e, s0)
      | (Inr _, s0) \<Rightarrow>
          (case has_collection (MILVUS_COLLECTION_NAME st) s0 of
             (Inl e, s1) \<Rightarrow> (Inl e, s1)
           | (Inr True, s1) \<Rightarrow>
               (case Collection_open (MILVUS_COLLECTION_NAME st) s1 of
                  (Inl e, s2) \<Rightarrow> (Inl e, s2)
                | (Inr col, s2) \<Rightarrow> (milvus_check_existing st col, s2))
           | (Inr False, s1) \<Rightarrow> milvus_create st s1))"

section \<open>The server process: server/server.py\<close>

record CORSMiddleware =
  allow_origins :: "string list"
  allow_credentials :: bool
  allow_methods :: "string list"
  allow_headers :: "string list"

text \<open>
  What \<open>main\<close> acts on: the application's middleware, the two stores, and the port the
  HTTP listener serves on, \<open>None\<close> until \<open>uvicorn.run\<close> is reached.
\<close>

record process =
  middleware :: "CORSMiddleware list"
  redis :: redis_server
  milvus :: milvus_server
  listening :: "nat option"

definition main :: "Settings \<Rightarrow> process \<Rightarrow> (error + unit) \<times> process" where
  "main st p =
     (let p0 = p\<lparr>middleware :=
                   \<lparr>allow_origins = [''*''], allow_credentials = True,
                    allow_methods = [''*''], allow_headers = [''*'']\<rparr> # middleware p\<rparr>
      in case init_redis_schema st (redis p0) of
           (Inl e, r) \<Rightarrow> (Inl e, p0\<lparr>redis := r\<rparr>)
         | (Inr _, r) \<Rightarrow>
             (case init_milvus_schema st (milvus p0) of
                (Inl e, m) \<Rightarrow> (Inl e, p0\<lparr>redis := r, milvus := m\<rparr>)
              | (Inr _, m) \<Rightarrow> (Inr (), p0\<lparr>redis := r, milvus := m, listening := Some 8000\<rparr>)))"

text \<open>
  Running the server module: importing \<open>init_schema\<close> imports the settings module, whose
  last statement constructs \<open>Settings()\<close>; \<open>main\<close> runs only when that import
  returns.
\<close>

definition run_server ::
  "(string \<Rightarrow> int option) \<Rightarrow> environment \<Rightarrow> dotenv \<Rightarrow> process
     \<Rightarrow> (error + unit) \<times> process" where
  "run_server parse env d p =
     (case Settings_init parse env d of
        Inl e \<Rightarrow> (Inl e, p)
      | Inr st \<Rightarrow> main st p)"

section \<open>Concrete configurations and stores\<close>

definition example_settings :: Settings where
  "example_settings =
     \<lparr>REDIS_HOST = ''localhost'', REDIS_PORT = 6379, REDIS_INDEX_NAME = ''cache_idx'',
      MILVUS_HOST = ''localhost'', MILVUS_PORT = 19530, MILVUS_COLLECTION_NAME = ''lms_kb'',
      VECTOR_DIM = 384\<rparr>"

definition other_settings :: Settings where
  "other_settings =
     \<lparr>REDIS_HOST = ''redis.internal'', REDIS_PORT = 6380, REDIS_INDEX_NAME = ''idx2'',
      MILVUS_HOST = ''milvus.internal'', MILVUS_PORT = 19531, MILVUS_COLLECTION_NAME = ''kb2'',
      VECTOR_DIM = 768\<rparr>"

text \<open>
  A \<open>.env\<close> file with the seven entries; the same with \<open>VECTOR_DIM\<close> no number, with one
  more entry, and without \<open>MILVUS_HOST\<close>. The process environment of the examples has
  none of the seven names.
\<close>

definition full_dotenv :: dotenv where
  "full_dotenv =
     [(''REDIS_HOST'', ''localhost''), (''REDIS_PORT'', ''6379''),
      (''REDIS_INDEX_NAME'', ''cache_idx''), (''MILVUS_HOST'', ''localhost''),
      (''MILVUS_PORT'', ''19530''), (''MILVUS_COLLECTION_NAME'', ''lms_kb''),
      (''VECTOR_DIM'', ''384'')]"

definition malformed_dotenv :: dotenv where
  "malformed_dotenv = full_dotenv @ [(''VECTOR_DIM'', ''abc'')]"

definition extended_dotenv :: dotenv where
  "extended_dotenv = full_dotenv @ [(''LOG_LEVEL'', ''debug'')]"

definition incomplete_dotenv :: dotenv where
  "incomplete_dotenv = filter (\<lambda>kv. fst kv \<noteq> ''MILVUS_HOST'') full_dotenv"

text \<open>Servers that answer every request, holding nothing or one index or collection.\<close>

definition fresh_redis :: redis_server where
  "fresh_redis = \<lparr>redis_failure = (\<lambda>_. None), indexes = Map.empty, commands = []\<rparr>"

definition redis_holding :: "string \<Rightarrow> redis_index \<Rightarrow> redis_server" where
  "redis_holding n idx = fresh_redis\<lparr>indexes := [n \<mapsto> idx]\<rparr>"

definition fresh_milvus :: milvus_server where
  "fresh_milvus = \<lparr>milvus_failure = (\<lambda>_. None), collections = Map.empty, requests = []\<rparr>"

definition milvus_holding :: "string \<Rightarrow> Collection \<Rightarrow> milvus_server" where
  "milvus_holding n col = fresh_milvus\<lparr>collections := [n \<mapsto> col]\<rparr>"

definition fresh_process :: "redis_server \<Rightarrow> milvus_server \<Rightarrow> process" where
  "fresh_process r m = \<lparr>middleware = [], redis = r, milvus = m, listening = None\<rparr>"

text \<open>An index without \<open>vector\<close> and \<open>last_accessed\<close>.\<close>

definition partial_index :: redis_index where
  "partial_index =
     \<lparr>index_fields = [TagField ''course_id'', NumericField ''access_count''],
      index_definition = \<lparr>prefix = [''cache:''], index_type = HASH\<rparr>,
      index_stopwords = []\<rparr>"

text \<open>
  A collection of three fields: the primary key, the partition key and a vector of the
  given dimension.
\<close>

definition three_field_collection :: "int \<Rightarrow> Collection" where
  "three_field_collection d =
     \<lparr>schema =
        \<lparr>schema_fields =
           [\<lparr>name = ''id'', dtype = INT64, is_primary = True, auto_id = True,
             is_partition_key = False, dim = None, max_length = None, description = []\<rparr>,
            \<lparr>name = ''course_id'', dtype = INT64, is_primary = False, auto_id = False,
             is_partition_key = True, dim = None, max_length = None, description = []\<rparr>,
            \<lparr>name = ''vector'', dtype = FLOAT_VECTOR, is_primary = False, auto_id = False,
             is_partition_key = False, dim = Some d, max_length = None, description = []\<rparr>],
         schema_description = []\<rparr>,
      consistency_level = ''Bounded'',
      vector_indexes = []\<rparr>"

section \<open>How the construction and the two initialisers run\<close>

lemma init_redis_schema_absent:
  assumes "redis_failure s PING = None"
    and "indexes s (REDIS_INDEX_NAME st) = None"
    and "redis_failure s
           (FT_CREATE (REDIS_INDEX_NAME st) (redis_schema st) redis_definition []) = None"
  shows "init_redis_schema st s =
    (Inr (),
     s\<lparr>indexes := (indexes s)(REDIS_INDEX_NAME st \<mapsto>
          \<lparr>index_fields = redis_schema st, index_definition = redis_definition,
           index_stopwords = []\<rparr>),
       commands := commands s @
         [PING, FT_INFO (REDIS_INDEX_NAME st),
          FT_CREATE (REDIS_INDEX_NAME st) (redis_schema st) redis_definition []]\<rparr>)"
  using assms
  by (simp add: init_redis_schema_def ping_def redis_check_existing_def ft_info_def
      redis_create_def create_index_def redis_sent_def split: option.splits)

lemma attribute_values_flat_lists:
  "fs \<noteq> [] \<Longrightarrow>
     attribute_values (map attribute_reply fs) =
       Inl (TypeError ''list indices must be integers or slices, not str'')"
  by (cases fs) (simp_all add: attribute_reply_def)

lemma init_redis_schema_existing:
  assumes "redis_failure s PING = None"
    and "redis_failure s (FT_INFO (REDIS_INDEX_NAME st)) = None"
    and "indexes s (REDIS_INDEX_NAME st) = Some idx"
    and "index_fields idx \<noteq> []"
  shows "init_redis_schema st s =
    (Inl (TypeError ''list indices must be integers or slices, not str''),
     s\<lparr>commands := commands s @ [PING, FT_INFO (REDIS_INDEX_NAME st)]\<rparr>)"
  using assms
  by (simp add: init_redis_schema_def ping_def redis_check_existing_def ft_info_def
      redis_sent_def attribute_values_flat_lists)



lemma init_milvus_schema_existing:
  assumes "milvus_failure s (CONNECT ''default'' (MILVUS_HOST st) (MILVUS_PORT st)) = None"
    and "milvus_failure s (HAS_COLLECTION (MILVUS_COLLECTION_NAME st)) = None"
    and "milvus_failure s (DESCRIBE_COLLECTION (MILVUS_COLLECTION_NAME st)) = None"
    and "collections s (MILVUS_COLLECTION_NAME st) = Some col"
  shows "init_milvus_schema st s =
    (milvus_check_existing st col,
     s\<lparr>requests := requests s @
         [CONNECT ''default'' (MILVUS_HOST st) (MILVUS_PORT st),
          HAS_COLLECTION (MILVUS_COLLECTION_NAME st),
          DESCRIBE_COLLECTION (MILVUS_COLLECTION_NAME st)]\<rparr>)"
  using assms
  by (simp add: init_milvus_schema_def connect_def has_collection_def Collection_open_def
      milvus_sent_def)

lemma init_milvus_schema_absent:
  assumes "milvus_failure s (CONNECT ''default'' (MILVUS_HOST st) (MILVUS_PORT st)) = None"
    and "milvus_failure s (HAS_COLLECTION (MILVUS_COLLECTION_NAME st)) = None"
    and "collections s (MILVUS_COLLECTION_NAME st) = None"
    and "milvus_failure s
           (CREATE_COLLECTION (MILVUS_COLLECTION_NAME st) (milvus_schema st) ''Strong'') = None"
    and "milvus_failure s
           (CREATE_INDEX (MILVUS_COLLECTION_NAME st) ''vector'' index_params) = None"
  shows "init_milvus_schema st s =
    (Inr (),
     s\<lparr>collections := (collections s)(MILVUS_COLLECTION_NAME st \<mapsto>
          \<lparr>schema = milvus_schema st, consistency_level = ''Strong'',
           vector_indexes = [(''vector'', index_params)]\<rparr>),
       requests := requests s @
         [CONNECT ''default'' (MILVUS_HOST st) (MILVUS_PORT st),
          HAS_COLLECTION (MILVUS_COLLECTION_NAME st),
          CREATE_COLLECTION (MILVUS_COLLECTION_NAME st) (milvus_schema st) ''Strong'',
          CREATE_INDEX (MILVUS_COLLECTION_NAME st) ''vector'' index_params]\<rparr>)"
  using assms
  by (simp add: init_milvus_schema_def connect_def has_collection_def milvus_create_def
      Collection_create_def Collection_create_index_def milvus_sent_def)


lemma main_listening:
  "listening (snd (main st p)) =
     (if fst (init_redis_schema st (redis p)) = Inr () \<and>
         fst (init_milvus_schema st (milvus p)) = Inr ()
      then Some 8000 else listening p)"
  by (auto simp add: main_def Let_def split: prod.splits sum.splits)

lemma main_result:
  "fst (main st p) =
     (case fst (init_redis_schema st (redis p)) of
        Inl e \<Rightarrow> Inl e
      | Inr _ \<Rightarrow> fst (init_milvus_schema st (milvus p)))"
  by (auto simp add: main_def Let_def split: prod.splits sum.splits)

lemma validate_str_ok: "\<not> isl (validate_str env k) \<longleftrightarrow> env k \<noteq> None"
  by (simp add: validate_str_def split: option.splits)

lemma validate_int_ok:
  "\<not> isl (validate_int parse env k) \<longleftrightarrow> env k \<noteq> None \<and> Option.bind (env k) parse \<noteq> None"
  by (simp add: validate_int_def split: option.splits)

lemma Settings_init_ok_iff:
  "(\<exists>st. Settings_init parse env d = Inr st) \<longleftrightarrow>
     \<not> isl (validate_str (setting_value env d) ''REDIS_HOST'') \<and>
     \<not> isl (validate_int parse (setting_value env d) ''REDIS_PORT'') \<and>
     \<not> isl (validate_str (setting_value env d) ''REDIS_INDEX_NAME'') \<and>
     \<not> isl (validate_str (setting_value env d) ''MILVUS_HOST'') \<and>
     \<not> isl (validate_int parse (setting_value env d) ''MILVUS_PORT'') \<and>
     \<not> isl (validate_str (setting_value env d) ''MILVUS_COLLECTION_NAME'') \<and>
     \<not> isl (validate_int parse (setting_value env d) ''VECTOR_DIM'') \<and>
     extra_inputs d = []"
  unfolding Settings_init_def Let_def
  by (simp split: sum.splits)

lemma Settings_init_cases:
  "(\<exists>st. Settings_init parse env d = Inr st) \<or>
   (\<exists>errs. Settings_init parse env d = Inl (ValidationError errs))"
  unfolding Settings_init_def Let_def
  by (simp split: sum.splits)

lemma extra_inputs_none:
  "set (map fst d) \<subseteq> set setting_names \<Longrightarrow> extra_inputs d = []"
  by (auto simp add: extra_inputs_def filter_empty_conv)

lemmas example_defs =
  example_settings_def other_settings_def fresh_redis_def redis_holding_def
  fresh_milvus_def milvus_holding_def fresh_process_def partial_index_def
  three_field_collection_def required_fields_def redis_schema_def
  redis_definition_def milvus_schema_def index_params_def FieldSchema_new_def
  fields_by_name_def attribute_reply_def

section \<open>The claims\<close>

text \<open>
  C1. The claim: on an existing cache index that lacks a required attribute,
  \<open>init_redis_schema\<close> fails at once with the schema-mismatch error and sends the store
  nothing more. On the index \<open>partial_index\<close> (no \<open>vector\<close>, no \<open>last_accessed\<close>) the run
  does stop after \<open>PING\<close> and the \<open>info\<close> query, without a creation command; but what it
  raises is the \<open>TypeError\<close> of subscripting the first element of the reply with
  \<open>"attribute"\<close>, before the attributes are compared with the required ones. The
  schema-mismatch error is never raised.
\<close>

theorem init_redis_schema_existing_raises_type_error:
  "init_redis_schema example_settings (redis_holding ''cache_idx'' partial_index) =
     (Inl (TypeError ''list indices must be integers or slices, not str''),
      (redis_holding ''cache_idx'' partial_index)
        \<lparr>commands := [PING, FT_INFO ''cache_idx'']\<rparr>)"
  by (simp add: init_redis_schema_def ping_def redis_check_existing_def ft_info_def
      redis_sent_def example_defs)

text \<open>
  C2. Where the Milvus collection exists and its \<open>vector\<close> field has a dimension other
  than \<open>VECTOR_DIM\<close>, \<open>init_milvus_schema\<close> raises one of its schema errors (the
  partition-key check comes first, the dimension check after it) and leaves the
  collections as they were; \<open>main\<close> then ends in an error without reaching the HTTP
  listener.
\<close>

theorem init_milvus_schema_dimension_mismatch:
  assumes "milvus_failure (milvus p)
             (CONNECT ''default'' (MILVUS_HOST st) (MILVUS_PORT st)) = None"
    and "milvus_failure (milvus p) (HAS_COLLECTION (MILVUS_COLLECTION_NAME st)) = None"
    and "milvus_failure (milvus p) (DESCRIBE_COLLECTION (MILVUS_COLLECTION_NAME st)) = None"
    and "collections (milvus p) (MILVUS_COLLECTION_NAME st) = Some col"
    and "fields_by_name (schema_fields (schema col)) ''vector'' = Some v"
    and "dim v \<noteq> Some (VECTOR_DIM st)"
  shows "(fst (init_milvus_schema st (milvus p)) =
            Inl (MilvusException ''Vector dimension mismatch'') \<or>
          fst (init_milvus_schema st (milvus p)) =
            Inl (MilvusException
                   ''Milvus schema invalid: 'course_id' must be a partition key'')) \<and>
         collections (snd (init_milvus_schema st (milvus p))) = collections (milvus p) \<and>
         isl (fst (main st p)) \<and>
         listening (snd (main st p)) = listening p"
proof -
  let ?r = "init_milvus_schema st (milvus p)"
  have run: "?r = (milvus_check_existing st col,
      (milvus p)\<lparr>requests := requests (milvus p) @
         [CONNECT ''default'' (MILVUS_HOST st) (MILVUS_PORT st),
          HAS_COLLECTION (MILVUS_COLLECTION_NAME st),
          DESCRIBE_COLLECTION (MILVUS_COLLECTION_NAME st)]\<rparr>)"
    using assms(1-4) by (rule init_milvus_schema_existing)
  have chk: "milvus_check_existing st col = Inl (MilvusException ''Vector dimension mismatch'') \<or>
      milvus_check_existing st col =
        Inl (MilvusException ''Milvus schema invalid: 'course_id' must be a partition key'')"
    using assms(5,6) by (simp add: milvus_check_existing_def Let_def split: option.splits)
  have err: "isl (fst ?r)"
    using chk run by auto
  have "isl (fst (main st p))"
    using err by (simp add: main_result split: sum.splits)
  moreover have "listening (snd (main st p)) = listening p"
    using err by (auto simp add: main_listening)
  ultimately show ?thesis
    using chk run by simp
qed

theorem init_milvus_schema_dimension_mismatch_witness:
  "fst (init_milvus_schema example_settings (milvus_holding ''lms_kb'' (three_field_collection 768)))
     = Inl (MilvusException ''Vector dimension mismatch'') \<and>
   isl (fst (main example_settings
     (fresh_process fresh_redis (milvus_holding ''lms_kb'' (three_field_collection 768))))) \<and>
   listening (snd (main example_settings
     (fresh_process fresh_redis (milvus_holding ''lms_kb'' (three_field_collection 768))))) = None"
proof -
  let ?p = "fresh_process fresh_redis (milvus_holding ''lms_kb'' (three_field_collection 768))"
  let ?v = "\<lparr>name = ''vector'', dtype = FLOAT_VECTOR, is_primary = False, auto_id = False,
             is_partition_key = False, dim = Some 768, max_length = None, description = []\<rparr>"
  have m: "milvus ?p = milvus_holding ''lms_kb'' (three_field_collection 768)"
    by (simp add: fresh_process_def)
  have l: "listening ?p = None"
    by (simp add: fresh_process_def)
  have c: "init_milvus_schema example_settings (milvus ?p) =
      (Inl (MilvusException ''Vector dimension mismatch''),
       (milvus ?p)\<lparr>requests := [CONNECT ''default'' ''localhost'' 19530,
          HAS_COLLECTION ''lms_kb'', DESCRIBE_COLLECTION ''lms_kb'']\<rparr>)"
    by (simp add: init_milvus_schema_def connect_def has_collection_def Collection_open_def
        milvus_sent_def milvus_check_existing_def example_defs)
  have "isl (fst (main example_settings ?p)) \<and>
      listening (snd (main example_settings ?p)) = listening ?p"
    using init_milvus_schema_dimension_mismatch
      [of ?p example_settings "three_field_collection 768" ?v]
    by (simp add: example_defs)
  then show ?thesis using c l m by simp
qed

text \<open>
  C4. From a process that is not listening, \<open>main\<close> reaches \<open>uvicorn.run\<close> exactly when
  \<open>init_redis_schema\<close> and \<open>init_milvus_schema\<close> both return without raising; an error
  of either is the error \<open>main\<close> ends with, and the listener is never started.
\<close>

theorem main_serves_only_after_both_schemas:
  assumes "listening p = None"
  shows "(listening (snd (main st p)) \<noteq> None \<longleftrightarrow>
            fst (init_redis_schema st (redis p)) = Inr () \<and>
            fst (init_milvus_schema st (milvus p)) = Inr ()) \<and>
         (\<forall>e. fst (init_redis_schema st (redis p)) = Inl e \<longrightarrow>
            fst (main st p) = Inl e \<and> listening (snd (main st p)) = None) \<and>
         (\<forall>e. fst (init_redis_schema st (redis p)) = Inr () \<and>
              fst (init_milvus_schema st (milvus p)) = Inl e \<longrightarrow>
            fst (main st p) = Inl e \<and> listening (snd (main st p)) = None)"
  using assms by (auto simp add: main_listening main_result)

theorem main_serves_only_after_both_schemas_witness:
  "listening (snd (main example_settings (fresh_process fresh_redis fresh_milvus))) = Some 8000 \<and>
   fst (init_redis_schema example_settings fresh_redis) = Inr () \<and>
   fst (init_milvus_schema example_settings fresh_milvus) = Inr () \<and>
   fst (main example_settings
          (fresh_process (redis_holding ''cache_idx'' partial_index) fresh_milvus)) =
     Inl (TypeError ''list indices must be integers or slices, not str'') \<and>
   listening (snd (main example_settings
          (fresh_process (redis_holding ''cache_idx'' partial_index) fresh_milvus))) = None"
proof -
  let ?p = "fresh_process fresh_redis fresh_milvus"
  let ?q = "fresh_process (redis_holding ''cache_idx'' partial_index) fresh_milvus"
  have r: "fst (init_redis_schema example_settings fresh_redis) = Inr ()"
    by (simp add: init_redis_schema_def ping_def redis_check_existing_def ft_info_def
        redis_create_def create_index_def redis_sent_def example_defs)
  have m: "fst (init_milvus_schema example_settings fresh_milvus) = Inr ()"
    by (simp add: init_milvus_schema_def connect_def has_collection_def milvus_create_def
        Collection_create_def Collection_create_index_def milvus_sent_def example_defs)
  have q: "fst (init_redis_schema example_settings (redis_holding ''cache_idx'' partial_index)) =
      Inl (TypeError ''list indices must be integers or slices, not str'')"
    by (simp add: init_redis_schema_def ping_def redis_check_existing_def ft_info_def
        redis_create_def create_index_def redis_sent_def example_defs)
  have p0: "listening ?p = None" "redis ?p = fresh_redis" "milvus ?p = fresh_milvus"
    by (simp_all add: fresh_process_def)
  have q0: "listening ?q = None" "redis ?q = redis_holding ''cache_idx'' partial_index"
    by (simp_all add: fresh_process_def)
  have "listening (snd (main example_settings ?p)) \<noteq> None"
    using main_serves_only_after_both_schemas [of ?p example_settings] p0 r m by simp
  then have "listening (snd (main example_settings ?p)) = Some 8000"
    using p0 by (simp add: main_listening split: if_splits)
  moreover have "fst (main example_settings ?q) =
      Inl (TypeError ''list indices must be integers or slices, not str'') \<and>
      listening (snd (main example_settings ?q)) = None"
    using main_serves_only_after_both_schemas [of ?q example_settings] q0 q by simp
  ultimately show ?thesis using r m by simp
qed

text \<open>
  C5. Where the server holds no index of the configured name and accepts the creation
  command, \<open>init_redis_schema\<close> returns normally and the server then holds, under that
  name, an index over exactly \<open>course_id\<close> (tag), \<open>vector\<close> (HNSW, cosine distance,
  dimension \<open>VECTOR_DIM\<close>), \<open>access_count\<close> and \<open>last_accessed\<close> (numeric), over the
  hashes whose key starts with \<open>cache:\<close>.
\<close>

theorem init_redis_schema_creates_index:
  assumes "redis_failure s PING = None"
    and "indexes s (REDIS_INDEX_NAME st) = None"
    and "redis_failure s
           (FT_CREATE (REDIS_INDEX_NAME st) (redis_schema st) redis_definition []) = None"
  shows "fst (init_redis_schema st s) = Inr () \<and>
         indexes (snd (init_redis_schema st s)) (REDIS_INDEX_NAME st) =
           Some \<lparr>index_fields =
                   [TagField ''course_id'',
                    VectorField ''vector'' ''HNSW''
                      [(''TYPE'', PyStr ''FLOAT32''),
                       (''DIM'', PyInt (VECTOR_DIM st)),
                       (''DISTANCE_METRIC'', PyStr ''COSINE''),
                       (''M'', PyInt 16),
                       (''EF_CONSTRUCTION'', PyInt 200)],
                    NumericField ''access_count'',
                    NumericField ''last_accessed''],
                 index_definition = \<lparr>prefix = [''cache:''], index_type = HASH\<rparr>,
                 index_stopwords = []\<rparr>"
  using init_redis_schema_absent [OF assms]
  by (simp add: redis_schema_def redis_definition_def)

theorem init_redis_schema_creates_index_witness:
  "fst (init_redis_schema example_settings fresh_redis) = Inr () \<and>
   indexes (snd (init_redis_schema example_settings fresh_redis)) ''cache_idx'' =
     Some \<lparr>index_fields =
             [TagField ''course_id'',
              VectorField ''vector'' ''HNSW''
                [(''TYPE'', PyStr ''FLOAT32''), (''DIM'', PyInt 384),
                 (''DISTANCE_METRIC'', PyStr ''COSINE''), (''M'', PyInt 16),
                 (''EF_CONSTRUCTION'', PyInt 200)],
              NumericField ''access_count'', NumericField ''last_accessed''],
           index_definition = \<lparr>prefix = [''cache:''], index_type = HASH\<rparr>,
           index_stopwords = []\<rparr>"
  using init_redis_schema_creates_index [of fresh_redis example_settings]
  by (simp add: fresh_redis_def example_settings_def)

text \<open>
  C6. Where the server holds no collection of the configured name and accepts the two
  creation requests, \<open>init_milvus_schema\<close> returns normally and the server then holds
  the collection with \<open>course_id\<close> as partition key, a float vector field \<open>vector\<close> of
  dimension \<open>VECTOR_DIM\<close>, consistency level \<open>Strong\<close>, and one index, over \<open>vector\<close>:
  HNSW with the cosine metric.
\<close>

theorem init_milvus_schema_creates_collection:
  assumes "milvus_failure s (CONNECT ''default'' (MILVUS_HOST st) (MILVUS_PORT st)) = None"
    and "milvus_failure s (HAS_COLLECTION (MILVUS_COLLECTION_NAME st)) = None"
    and "collections s (MILVUS_COLLECTION_NAME st) = None"
    and "milvus_failure s
           (CREATE_COLLECTION (MILVUS_COLLECTION_NAME st) (milvus_schema st) ''Strong'') = None"
    and "milvus_failure s
           (CREATE_INDEX (MILVUS_COLLECTION_NAME st) ''vector'' index_params) = None"
  shows "fst (init_milvus_schema st s) = Inr () \<and>
         (\<exists>col c v.
            collections (snd (init_milvus_schema st s)) (MILVUS_COLLECTION_NAME st) = Some col \<and>
            fields_by_name (schema_fields (schema col)) ''course_id'' = Some c \<and>
            is_partition_key c \<and>
            fields_by_name (schema_fields (schema col)) ''vector'' = Some v \<and>
            dtype v = FLOAT_VECTOR \<and> dim v = Some (VECTOR_DIM st) \<and>
            map name (schema_fields (schema col)) =
              [''id'', ''course_id'', ''vector'', ''doc_ref_id'', ''chunk_index'', ''created_at''] \<and>
            consistency_level col = ''Strong'' \<and>
            vector_indexes col =
              [(''vector'',
                PyDict [(''metric_type'', PyStr ''COSINE''),
                        (''index_type'', PyStr ''HNSW''),
                        (''params'',
                         PyDict [(''M'', PyInt 16), (''efConstruction'', PyInt 200)])])])"
  using init_milvus_schema_absent [OF assms]
  by (simp add: milvus_schema_def index_params_def FieldSchema_new_def fields_by_name_def)

theorem init_milvus_schema_creates_collection_witness:
  "fst (init_milvus_schema example_settings fresh_milvus) = Inr () \<and>
   (\<exists>col c v.
      collections (snd (init_milvus_schema example_settings fresh_milvus)) ''lms_kb'' = Some col \<and>
      fields_by_name (schema_fields (schema col)) ''course_id'' = Some c \<and>
      is_partition_key c \<and>
      fields_by_name (schema_fields (schema col)) ''vector'' = Some v \<and>
      dtype v = FLOAT_VECTOR \<and> dim v = Some 384 \<and>
      map name (schema_fields (schema col)) =
        [''id'', ''course_id'', ''vector'', ''doc_ref_id'', ''chunk_index'', ''created_at''] \<and>
      consistency_level col = ''Strong'' \<and>
      vector_indexes col =
        [(''vector'',
          PyDict [(''metric_type'', PyStr ''COSINE''),
                  (''index_type'', PyStr ''HNSW''),
                  (''params'',
                   PyDict [(''M'', PyInt 16), (''efConstruction'', PyInt 200)])])])"
  using init_milvus_schema_creates_collection [of fresh_milvus example_settings]
  by (simp add: fresh_milvus_def example_settings_def)

text \<open>
  C10. The two stores type \<open>course_id\<close> differently: in the collection
  \<open>init_milvus_schema\<close> creates it is a 64-bit integer field and the partition key
  (a field of that type holds integers only); in the index \<open>init_redis_schema\<close> creates
  it is a tag field.
\<close>

theorem course_id_types_disagree:
  assumes "redis_failure r PING = None"
    and "indexes r (REDIS_INDEX_NAME st) = None"
    and "redis_failure r
           (FT_CREATE (REDIS_INDEX_NAME st) (redis_schema st) redis_definition []) = None"
    and "milvus_failure m (CONNECT ''default'' (MILVUS_HOST st) (MILVUS_PORT st)) = None"
    and "milvus_failure m (HAS_COLLECTION (MILVUS_COLLECTION_NAME st)) = None"
    and "collections m (MILVUS_COLLECTION_NAME st) = None"
    and "milvus_failure m
           (CREATE_COLLECTION (MILVUS_COLLECTION_NAME st) (milvus_schema st) ''Strong'') = None"
    and "milvus_failure m
           (CREATE_INDEX (MILVUS_COLLECTION_NAME st) ''vector'' index_params) = None"
  shows "(\<exists>col c.
            collections (snd (init_milvus_schema st m)) (MILVUS_COLLECTION_NAME st) = Some col \<and>
            fields_by_name (schema_fields (schema col)) ''course_id'' = Some c \<and>
            dtype c = INT64 \<and> is_partition_key c) \<and>
         (\<exists>idx.
            indexes (snd (init_redis_schema st r)) (REDIS_INDEX_NAME st) = Some idx \<and>
            filter (\<lambda>f. field_name f = ''course_id'') (index_fields idx) =
              [TagField ''course_id''])"
  using init_milvus_schema_absent [OF assms(4-8)] init_redis_schema_absent [OF assms(1-3)]
  by (simp add: milvus_schema_def FieldSchema_new_def fields_by_name_def redis_schema_def)

theorem course_id_types_disagree_witness:
  "(\<exists>col c.
      collections (snd (init_milvus_schema example_settings fresh_milvus)) ''lms_kb'' = Some col \<and>
      fields_by_name (schema_fields (schema col)) ''course_id'' = Some c \<and>
      dtype c = INT64 \<and> is_partition_key c) \<and>
   (\<exists>idx.
      indexes (snd (init_redis_schema example_settings fresh_redis)) ''cache_idx'' = Some idx \<and>
      filter (\<lambda>f. field_name f = ''course_id'') (index_fields idx) = [TagField ''course_id''])"
  using course_id_types_disagree [of fresh_redis example_settings fresh_milvus]
  by (simp add: fresh_redis_def fresh_milvus_def example_settings_def)

text \<open>
  On a collection that passes the three checks \<open>init_milvus_schema\<close> writes nothing: it
  connects, asks whether the collection exists, reads its schema and returns, and a
  second run does the same again.
\<close>

lemma init_milvus_schema_idempotent_on_valid_store:
  assumes "milvus_failure m (CONNECT ''default'' (MILVUS_HOST st) (MILVUS_PORT st)) = None"
    and "milvus_failure m (HAS_COLLECTION (MILVUS_COLLECTION_NAME st)) = None"
    and "milvus_failure m (DESCRIBE_COLLECTION (MILVUS_COLLECTION_NAME st)) = None"
    and "collections m (MILVUS_COLLECTION_NAME st) = Some col"
    and "milvus_check_existing st col = Inr ()"
  shows "init_milvus_schema st m =
           (Inr (), m\<lparr>requests := requests m @
              [CONNECT ''default'' (MILVUS_HOST st) (MILVUS_PORT st),
               HAS_COLLECTION (MILVUS_COLLECTION_NAME st),
               DESCRIBE_COLLECTION (MILVUS_COLLECTION_NAME st)]\<rparr>) \<and>
         fst (init_milvus_schema st (snd (init_milvus_schema st m))) = Inr () \<and>
         collections (snd (init_milvus_schema st (snd (init_milvus_schema st m)))) =
           collections m"
proof -
  let ?m1 = "m\<lparr>requests := requests m @
              [CONNECT ''default'' (MILVUS_HOST st) (MILVUS_PORT st),
               HAS_COLLECTION (MILVUS_COLLECTION_NAME st),
               DESCRIBE_COLLECTION (MILVUS_COLLECTION_NAME st)]\<rparr>"
  have m1: "init_milvus_schema st m = (Inr (), ?m1)"
    using init_milvus_schema_existing [OF assms(1-4)] assms(5) by simp
  have m2: "init_milvus_schema st ?m1 =
      (Inr (), ?m1\<lparr>requests := requests ?m1 @
              [CONNECT ''default'' (MILVUS_HOST st) (MILVUS_PORT st),
               HAS_COLLECTION (MILVUS_COLLECTION_NAME st),
               DESCRIBE_COLLECTION (MILVUS_COLLECTION_NAME st)]\<rparr>)"
    using init_milvus_schema_existing [of ?m1 st col] assms by simp
  show ?thesis
    by (simp add: m1 m2)
qed

text \<open>
  C9. The claim: on a store that passes validation a second run takes the
  already-exists branch, validates again and returns, writing nothing. For the cache
  store it does not return: the first run on a server without the index creates it and
  returns; the second run, on the index just created, sends \<open>PING\<close> and the \<open>info\<close>
  query, writes nothing, and raises the \<open>TypeError\<close> of subscripting the first element
  of the reply with \<open>"attribute"\<close>.
\<close>

theorem init_redis_schema_second_run_raises:
  "fst (init_redis_schema example_settings fresh_redis) = Inr () \<and>
   fst (init_redis_schema example_settings
          (snd (init_redis_schema example_settings fresh_redis))) =
     Inl (TypeError ''list indices must be integers or slices, not str'') \<and>
   indexes (snd (init_redis_schema example_settings
          (snd (init_redis_schema example_settings fresh_redis)))) =
     indexes (snd (init_redis_schema example_settings fresh_redis)) \<and>
   commands (snd (init_redis_schema example_settings
          (snd (init_redis_schema example_settings fresh_redis)))) =
     commands (snd (init_redis_schema example_settings fresh_redis)) @
       [PING, FT_INFO ''cache_idx'']"
proof -
  let ?s1 = "fresh_redis\<lparr>indexes := (indexes fresh_redis)(''cache_idx'' \<mapsto>
          \<lparr>index_fields = redis_schema example_settings,
           index_definition = redis_definition, index_stopwords = []\<rparr>),
       commands := commands fresh_redis @
         [PING, FT_INFO ''cache_idx'',
          FT_CREATE ''cache_idx'' (redis_schema example_settings) redis_definition []]\<rparr>"
  have first: "init_redis_schema example_settings fresh_redis = (Inr (), ?s1)"
    using init_redis_schema_absent [of fresh_redis example_settings]
    by (simp add: fresh_redis_def example_settings_def)
  have second: "init_redis_schema example_settings ?s1 =
      (Inl (TypeError ''list indices must be integers or slices, not str''),
       ?s1\<lparr>commands := commands ?s1 @ [PING, FT_INFO ''cache_idx'']\<rparr>)"
    using init_redis_schema_existing [of ?s1 example_settings
        "\<lparr>index_fields = redis_schema example_settings,
          index_definition = redis_definition, index_stopwords = []\<rparr>"]
    by (simp add: fresh_redis_def example_settings_def redis_schema_def)
  show ?thesis
    by (simp add: first second)
qed




text \<open>
  C7. The claim: constructing \<open>Settings\<close> succeeds if and only if all seven values are
  supplied. With all seven supplied the construction still fails where \<open>VECTOR_DIM\<close> is
  \<open>abc\<close> (the field is declared \<open>int\<close>), and where the \<open>.env\<close> file has one more
  entry, \<open>LOG_LEVEL\<close> (inputs that are no field are forbidden).
\<close>

theorem settings_supplied_yet_rejected_counterexample:
  "all_supplied (setting_value Map.empty malformed_dotenv) \<and>
   Settings_init parse_decimal Map.empty malformed_dotenv =
     Inl (ValidationError [IntParsing ''VECTOR_DIM'']) \<and>
   all_supplied (setting_value Map.empty extended_dotenv) \<and>
   Settings_init parse_decimal Map.empty extended_dotenv =
     Inl (ValidationError [ExtraForbidden ''LOG_LEVEL''])"
  by (simp add: all_supplied_def setting_value_def dotenv_value_def malformed_dotenv_def
      extended_dotenv_def full_dotenv_def Settings_init_def validate_str_def validate_int_def
      extra_inputs_def setting_names_def parse_decimal_def trim_def is_space_def
      strip_decimal_zeros_def strip_underscores_def)

text \<open>
  C7, as amended. No field has a default. Constructing \<open>Settings\<close> succeeds only if
  all seven values are supplied and the three \<open>int\<close> values are strings the integer
  conversion accepts; it does succeed where, besides, the \<open>.env\<close> file has no entry
  under another name. Where one of the seven is missing the construction fails, and the
  server process ends with that error before \<open>main\<close> runs: nothing of the process has
  changed.
\<close>

theorem settings_all_required:
  "((\<exists>st. Settings_init parse env d = Inr st) \<longrightarrow>
      all_supplied (setting_value env d) \<and> ints_valid parse (setting_value env d)) \<and>
   (all_supplied (setting_value env d) \<and> ints_valid parse (setting_value env d) \<and>
    set (map fst d) \<subseteq> set setting_names \<longrightarrow>
      (\<exists>st. Settings_init parse env d = Inr st)) \<and>
   (\<not> all_supplied (setting_value env d) \<longrightarrow>
      (\<exists>errs. Settings_init parse env d = Inl (ValidationError errs) \<and>
              run_server parse env d p = (Inl (ValidationError errs), p)))"
proof -
  have iff: "(\<exists>st. Settings_init parse env d = Inr st) \<longleftrightarrow>
      all_supplied (setting_value env d) \<and> ints_valid parse (setting_value env d) \<and>
      extra_inputs d = []"
    unfolding Settings_init_ok_iff validate_str_ok validate_int_ok all_supplied_def
      ints_valid_def
    by blast
  have "\<exists>errs. Settings_init parse env d = Inl (ValidationError errs) \<and>
      run_server parse env d p = (Inl (ValidationError errs), p)"
    if "\<not> all_supplied (setting_value env d)"
  proof -
    from that iff have "\<not> (\<exists>st. Settings_init parse env d = Inr st)"
      by blast
    with Settings_init_cases [of parse env d]
    obtain errs where "Settings_init parse env d = Inl (ValidationError errs)"
      by blast
    then show ?thesis
      by (simp add: run_server_def)
  qed
  with iff extra_inputs_none [of d] show ?thesis by blast
qed

theorem settings_all_required_witness:
  "Settings_init parse_decimal Map.empty full_dotenv = Inr example_settings \<and>
   all_supplied (setting_value Map.empty full_dotenv) \<and>
   ints_valid parse_decimal (setting_value Map.empty full_dotenv) \<and>
   \<not> all_supplied (setting_value Map.empty incomplete_dotenv) \<and>
   run_server parse_decimal Map.empty incomplete_dotenv
       (fresh_process fresh_redis fresh_milvus) =
     (Inl (ValidationError [Missing ''MILVUS_HOST'']), fresh_process fresh_redis fresh_milvus)"
proof -
  have ok: "Settings_init parse_decimal Map.empty full_dotenv = Inr example_settings"
    by (simp add: Settings_init_def validate_str_def validate_int_def full_dotenv_def
        setting_value_def dotenv_value_def extra_inputs_def setting_names_def
        example_settings_def parse_decimal_def trim_def is_space_def)
  have bad: "Settings_init parse_decimal Map.empty incomplete_dotenv =
      Inl (ValidationError [Missing ''MILVUS_HOST''])"
    by (simp add: Settings_init_def validate_str_def validate_int_def full_dotenv_def
        incomplete_dotenv_def setting_value_def dotenv_value_def extra_inputs_def
        setting_names_def parse_decimal_def trim_def is_space_def)
  have miss: "\<not> all_supplied (setting_value Map.empty incomplete_dotenv)"
    by (simp add: all_supplied_def incomplete_dotenv_def full_dotenv_def setting_value_def
        dotenv_value_def)
  have "all_supplied (setting_value Map.empty full_dotenv) \<and>
      ints_valid parse_decimal (setting_value Map.empty full_dotenv)"
    using settings_all_required [of parse_decimal Map.empty full_dotenv] ok by blast
  moreover have "run_server parse_decimal Map.empty incomplete_dotenv
      (fresh_process fresh_redis fresh_milvus) =
      (Inl (ValidationError [Missing ''MILVUS_HOST'']), fresh_process fresh_redis fresh_milvus)"
    using settings_all_required
      [of parse_decimal Map.empty incomplete_dotenv "fresh_process fresh_redis fresh_milvus"]
      miss bad by auto
  ultimately show ?thesis using ok miss by simp
qed

text \<open>
  C8. The claim: the HNSW graph parameters used for the two indexes depend on the
  configuration. Two configurations that differ in all seven values create indexes with
  the same parameters, 16 and 200.
\<close>

theorem hnsw_parameters_not_configurable_counterexample:
  "REDIS_HOST example_settings \<noteq> REDIS_HOST other_settings \<and>
   REDIS_PORT example_settings \<noteq> REDIS_PORT other_settings \<and>
   REDIS_INDEX_NAME example_settings \<noteq> REDIS_INDEX_NAME other_settings \<and>
   MILVUS_HOST example_settings \<noteq> MILVUS_HOST other_settings \<and>
   MILVUS_PORT example_settings \<noteq> MILVUS_PORT other_settings \<and>
   MILVUS_COLLECTION_NAME example_settings \<noteq> MILVUS_COLLECTION_NAME other_settings \<and>
   VECTOR_DIM example_settings \<noteq> VECTOR_DIM other_settings \<and>
   map_option (\<lambda>i. index_fields i ! 1)
       (indexes (snd (init_redis_schema example_settings fresh_redis)) ''cache_idx'') =
     Some (VectorField ''vector'' ''HNSW''
       [(''TYPE'', PyStr ''FLOAT32''), (''DIM'', PyInt 384),
        (''DISTANCE_METRIC'', PyStr ''COSINE''), (''M'', PyInt 16),
        (''EF_CONSTRUCTION'', PyInt 200)]) \<and>
   map_option (\<lambda>i. index_fields i ! 1)
       (indexes (snd (init_redis_schema other_settings fresh_redis)) ''idx2'') =
     Some (VectorField ''vector'' ''HNSW''
       [(''TYPE'', PyStr ''FLOAT32''), (''DIM'', PyInt 768),
        (''DISTANCE_METRIC'', PyStr ''COSINE''), (''M'', PyInt 16),
        (''EF_CONSTRUCTION'', PyInt 200)]) \<and>
   map_option vector_indexes
       (collections (snd (init_milvus_schema example_settings fresh_milvus)) ''lms_kb'') =
     Some [(''vector'',
       PyDict [(''metric_type'', PyStr ''COSINE''), (''index_type'', PyStr ''HNSW''),
               (''params'', PyDict [(''M'', PyInt 16), (''efConstruction'', PyInt 200)])])] \<and>
   map_option vector_indexes
       (collections (snd (init_milvus_schema other_settings fresh_milvus)) ''kb2'') =
     Some [(''vector'',
       PyDict [(''metric_type'', PyStr ''COSINE''), (''index_type'', PyStr ''HNSW''),
               (''params'', PyDict [(''M'', PyInt 16), (''efConstruction'', PyInt 200)])])]"
  by (simp add: init_redis_schema_def ping_def redis_check_existing_def ft_info_def
      redis_create_def create_index_def redis_sent_def init_milvus_schema_def connect_def
      has_collection_def milvus_create_def Collection_create_def Collection_create_index_def
      milvus_sent_def example_defs)

text \<open>
  C8, as amended. The graph parameters are constants of the code: whatever the
  configuration, the index \<open>init_redis_schema\<close> creates has \<open>M\<close> 16 and
  \<open>EF_CONSTRUCTION\<close> 200 on its vector field, and the index \<open>init_milvus_schema\<close>
  creates has \<open>M\<close> 16 and \<open>efConstruction\<close> 200; of the configuration only
  \<open>VECTOR_DIM\<close> enters the vector field.
\<close>

theorem hnsw_parameters_fixed:
  assumes "redis_failure r PING = None"
    and "indexes r (REDIS_INDEX_NAME st) = None"
    and "redis_failure r
           (FT_CREATE (REDIS_INDEX_NAME st) (redis_schema st) redis_definition []) = None"
    and "milvus_failure m (CONNECT ''default'' (MILVUS_HOST st) (MILVUS_PORT st)) = None"
    and "milvus_failure m (HAS_COLLECTION (MILVUS_COLLECTION_NAME st)) = None"
    and "collections m (MILVUS_COLLECTION_NAME st) = None"
    and "milvus_failure m
           (CREATE_COLLECTION (MILVUS_COLLECTION_NAME st) (milvus_schema st) ''Strong'') = None"
    and "milvus_failure m
           (CREATE_INDEX (MILVUS_COLLECTION_NAME st) ''vector'' index_params) = None"
  shows "map_option (\<lambda>i. index_fields i ! 1)
             (indexes (snd (init_redis_schema st r)) (REDIS_INDEX_NAME st)) =
           Some (VectorField ''vector'' ''HNSW''
             [(''TYPE'', PyStr ''FLOAT32''), (''DIM'', PyInt (VECTOR_DIM st)),
              (''DISTANCE_METRIC'', PyStr ''COSINE''), (''M'', PyInt 16),
              (''EF_CONSTRUCTION'', PyInt 200)]) \<and>
         map_option vector_indexes
             (collections (snd (init_milvus_schema st m)) (MILVUS_COLLECTION_NAME st)) =
           Some [(''vector'',
             PyDict [(''metric_type'', PyStr ''COSINE''), (''index_type'', PyStr ''HNSW''),
                     (''params'',
                      PyDict [(''M'', PyInt 16), (''efConstruction'', PyInt 200)])])]"
  using init_redis_schema_absent [OF assms(1-3)] init_milvus_schema_absent [OF assms(4-8)]
  by (simp add: redis_schema_def index_params_def)

theorem hnsw_parameters_fixed_witness:
  "map_option (\<lambda>i. index_fields i ! 1)
       (indexes (snd (init_redis_schema other_settings fresh_redis)) ''idx2'') =
     Some (VectorField ''vector'' ''HNSW''
       [(''TYPE'', PyStr ''FLOAT32''), (''DIM'', PyInt 768),
        (''DISTANCE_METRIC'', PyStr ''COSINE''), (''M'', PyInt 16),
        (''EF_CONSTRUCTION'', PyInt 200)]) \<and>
   map_option vector_indexes
       (collections (snd (init_milvus_schema other_settings fresh_milvus)) ''kb2'') =
     Some [(''vector'',
       PyDict [(''metric_type'', PyStr ''COSINE''), (''index_type'', PyStr ''HNSW''),
               (''params'', PyDict [(''M'', PyInt 16), (''efConstruction'', PyInt 200)])])]"
  using hnsw_parameters_fixed [of fresh_redis other_settings fresh_milvus]
  by (simp add: fresh_redis_def fresh_milvus_def other_settings_def)

end
